theory Spec2Isabelle
  imports Main "HOL-Library.Sublist" "HOL-Library.AList"
begin

section \<open>The component github.createIssueComment\<close>

text \<open>
  A shallow embedding of \<^verbatim>\<open>pkg/integrations/github/create_issue_comment.go\<close>: the
  static descriptors \<^verbatim>\<open>Configuration\<close> and \<^verbatim>\<open>OutputChannels\<close>, and the lifecycle
  operations \<^verbatim>\<open>Setup\<close> and \<^verbatim>\<open>Execute\<close>. The Go methods have an empty receiver
  (\<^verbatim>\<open>type CreateIssueComment struct{}\<close>), so each is a function of its arguments.
\<close>

subsection \<open>Errors\<close>

text \<open>
  Go errors are values. The component makes its own with \<^verbatim>\<open>errors.New\<close> and
  \<^verbatim>\<open>fmt.Errorf\<close>; \<^verbatim>\<open>fmt.Errorf("msg: %w", err)\<close> wraps the error of a library or of a
  collaborator. Those inner errors are kept as constructors of their own:
  what \<^verbatim>\<open>mapstructure.Decode\<close> returns (with the names of the fields it could not
  decode), the \<^verbatim>\<open>*strconv.NumError\<close> of \<^verbatim>\<open>strconv.Atoi\<close> (its input and its cause),
  and an error handed back by a collaborator (client construction, the API request,
  \<^verbatim>\<open>Emit\<close>).
\<close>

datatype num_error = ErrSyntax | ErrRange

datatype error =
    ErrorsNew string
  | Errorf string error
  | DecodeError "string list"
  | NumError string num_error
  | External string

text \<open>
  The message \<^verbatim>\<open>err.Error()\<close>. The text of an error the component did not write is
  given by \<open>lib\<close>, so that a statement about a message holds for whatever text the
  libraries print.
\<close>

fun Error :: "(error \<Rightarrow> string) \<Rightarrow> error \<Rightarrow> string" where
  "Error lib (ErrorsNew msg) = msg"
| "Error lib (Errorf msg err) = msg @ '': '' @ Error lib err"
| "Error lib err = lib err"

subsection \<open>The schema: Configuration()\<close>

datatype FieldType = FieldTypeIntegrationResource | FieldTypeString | FieldTypeText

record ResourceTypeOptions =
  Type :: string
  UseNameAsValue :: bool

record TypeOptions =
  Resource :: "ResourceTypeOptions option"

record Field =
  Name :: string
  Label :: string
  Type :: FieldType
  Required :: bool
  Placeholder :: string
  Description :: string
  TypeOptions :: "TypeOptions option"

text \<open>
  The method \<^verbatim>\<open>Configuration()\<close>. It is named \<open>Configuration_fields\<close> here, since
  \<open>Configuration\<close> is also the field of the contexts that holds the raw configuration
  map. Fields the Go literal leaves out hold their zero value: the empty string, nil.
\<close>

definition Configuration_fields :: "Field list" where
  "Configuration_fields =
    [\<lparr>Name = ''repository'',
      Label = ''Repository'',
      Type = FieldTypeIntegrationResource,
      Required = True,
      Placeholder = '''',
      Description = '''',
      TypeOptions = Some \<lparr>Resource = Some \<lparr>ResourceTypeOptions.Type = ''repository'',
                                               UseNameAsValue = True\<rparr>\<rparr>\<rparr>,
     \<lparr>Name = ''issueNumber'',
      Label = ''Issue Number'',
      Type = FieldTypeString,
      Required = True,
      Placeholder = ''e.g., 42'',
      Description = ''The issue or PR number to comment on'',
      TypeOptions = None\<rparr>,
     \<lparr>Name = ''body'',
      Label = ''Body'',
      Type = FieldTypeText,
      Required = True,
      Placeholder = ''Enter your comment (Markdown supported)'',
      Description = ''The comment text - supports Markdown formatting'',
      TypeOptions = None\<rparr>]"

subsection \<open>Output channels\<close>

record OutputChannel =
  Name :: string
  Label :: string

text \<open>
  \<^verbatim>\<open>core.DefaultOutputChannel\<close> is declared in \<^verbatim>\<open>pkg/core\<close>, which is not among the
  sources: it is a parameter of every function that reads it. The argument
  \<open>configuration\<close> is Go's \<^verbatim>\<open>any\<close> (nil included); the method never reads it, so its
  type is left open.
\<close>

definition OutputChannels :: "OutputChannel \<Rightarrow> 'cfg \<Rightarrow> OutputChannel list" where
  "OutputChannels DefaultOutputChannel configuration = [DefaultOutputChannel]"

subsection \<open>The raw configuration map and its decoding\<close>

text \<open>
  The field \<^verbatim>\<open>Configuration\<close> of the contexts has the static type \<^verbatim>\<open>any\<close>; what the
  host puts there, and what the tests pass, is a string-keyed map, and that is what
  the model takes.
  The raw configuration is a \<^verbatim>\<open>map[string]any\<close>. A value is nil, a string, or
  something else (a number, a boolean, a list, a map): \<^verbatim>\<open>mapstructure.Decode\<close> into a
  string field tells only these three apart. The map is an association list with
  \<open>map_of\<close> as the lookup; for a Go map the keys are distinct, and the order of the
  list is the order in which the decoder's loop over the keys visits them.
\<close>

datatype any = ANil | AString string | AOther

type_synonym raw_config = "(string \<times> any) list"

record CreateIssueCommentConfiguration =
  Repository :: string
  IssueNumber :: string
  Body :: string

text \<open>
  \<^verbatim>\<open>strings.EqualFold(key, name)\<close>, the decoder's default \<^verbatim>\<open>MatchName\<close>, for a \<open>name\<close>
  of ASCII characters, as the three tags of this component are. Go compares the two
  strings rune by rune under Unicode simple case folding. The runes that fold to an
  ASCII character are the character itself, for a letter the letter of the other case,
  and two more: U+017F (the long s, the bytes C5 BF in UTF-8), which folds to \<^verbatim>\<open>s\<close>,
  and U+212A (the Kelvin sign, the bytes E2 84 AA), which folds to \<^verbatim>\<open>k\<close>.
  \<open>foldASCII\<close> rewrites a key accordingly, from the left: a letter \<^verbatim>\<open>A-Z\<close> becomes its
  lower case, each of the two byte sequences becomes its letter, and every other byte
  stays. A byte above 7F that stays belongs to a rune that folds to no ASCII character
  (or to no rune at all), and it equals no character of the name.
\<close>

definition toLower :: "char \<Rightarrow> char" where
  "toLower c =
    (case map_of (zip ''ABCDEFGHIJKLMNOPQRSTUVWXYZ'' ''abcdefghijklmnopqrstuvwxyz'') c of
       Some l \<Rightarrow> l
     | None \<Rightarrow> c)"

fun foldASCII :: "string \<Rightarrow> string" where
  "foldASCII (a # b # c # cs) =
    (if [a, b, c] = [CHR 0xE2, CHR 0x84, CHR 0xAA] then CHR ''k'' # foldASCII cs
     else if [a, b] = [CHR 0xC5, CHR 0xBF] then CHR ''s'' # foldASCII (c # cs)
     else toLower a # foldASCII (b # c # cs))"
| "foldASCII [a, b] =
    (if [a, b] = [CHR 0xC5, CHR 0xBF] then ''s'' else [toLower a, toLower b])"
| "foldASCII [a] = [toLower a]"
| "foldASCII [] = []"

definition EqualFold :: "string \<Rightarrow> string \<Rightarrow> bool" where
  "EqualFold key name = (foldASCII key = map toLower name)"

text \<open>
  How the decoder finds the value of the struct field tagged \<open>name\<close>: the key \<open>name\<close>
  itself when the map has it, and otherwise the first key its loop meets that matches
  \<open>name\<close> without regard to case; no value when no key matches.
\<close>

definition fieldValue :: "raw_config \<Rightarrow> string \<Rightarrow> any option" where
  "fieldValue m name =
    (case map_of m name of
       Some v \<Rightarrow> Some v
     | None \<Rightarrow> map_option snd (find (\<lambda>kv. EqualFold (fst kv) name) m))"

text \<open>
  Decoding into a string field (no weakly typed input): a missing key and a nil value
  leave the field at its zero value \<^verbatim>\<open>""\<close>, a string is stored, any other value is an
  error for that field (\<open>Inl\<close> the field's name).
\<close>

definition decodeString :: "raw_config \<Rightarrow> string \<Rightarrow> string + string" where
  "decodeString m name =
    (case fieldValue m name of
       None \<Rightarrow> Inr ''''
     | Some ANil \<Rightarrow> Inr ''''
     | Some (AString s) \<Rightarrow> Inr s
     | Some AOther \<Rightarrow> Inl name)"

text \<open>
  \<^verbatim>\<open>mapstructure.Decode(ctx.Configuration, &config)\<close> with the struct tags
  \<^verbatim>\<open>repository\<close>, \<^verbatim>\<open>issueNumber\<close>, \<^verbatim>\<open>body\<close>: every field is decoded, and one error
  is returned for all the fields that failed. Keys that match no field are ignored.
\<close>

definition Decode :: "raw_config \<Rightarrow> error + CreateIssueCommentConfiguration" where
  "Decode m =
    (case (decodeString m ''repository'', decodeString m ''issueNumber'', decodeString m ''body'') of
       (Inr r, Inr i, Inr b) \<Rightarrow> Inr \<lparr>Repository = r, IssueNumber = i, Body = b\<rparr>
     | _ \<Rightarrow>
         Inl (DecodeError
           (filter (\<lambda>name. isl (decodeString m name)) [''repository'', ''issueNumber'', ''body''])))"

subsection \<open>strconv.Atoi\<close>

text \<open>
  \<^verbatim>\<open>strconv.Atoi\<close> for a 64-bit \<^verbatim>\<open>int\<close>. The digits are read from the left into an
  unsigned 64-bit number, as the loop of \<^verbatim>\<open>strconv.ParseUint\<close> does: a byte that is not
  a decimal digit ends it with a syntax error, and a number that would leave 64 bits
  ends it with a range error, whichever comes first; what follows is not read.
  (\<^verbatim>\<open>maxUint64/10 + 1\<close> is the library's cutoff: from there on, times ten overflows.)
\<close>

definition isDigit :: "char \<Rightarrow> bool" where
  "isDigit ch = (ch \<in> set ''0123456789'')"

fun parseDigits :: "nat \<Rightarrow> string \<Rightarrow> num_error + nat" where
  "parseDigits n [] = Inr n"
| "parseDigits n (c # cs) =
    (if \<not> isDigit c then Inl ErrSyntax
     else if (2 ^ 64 - 1) div 10 + 1 \<le> n then Inl ErrRange
     else if 2 ^ 64 \<le> n * 10 + (of_char c - 48) then Inl ErrRange
     else parseDigits (n * 10 + (of_char c - 48)) cs)"

text \<open>
  \<^verbatim>\<open>Atoi\<close> itself: the empty string is a syntax error; one leading \<^verbatim>\<open>+\<close> or \<^verbatim>\<open>-\<close> is
  taken off, and nothing left is a syntax error; the digits are read; a result is a
  range error unless it lies in \<open>-2^63 .. 2^63 - 1\<close>. Every error carries the whole
  input. (For fewer than 19 bytes Go takes a shortcut that reads the digits without
  the overflow tests, which cannot fire on so few digits.)
\<close>

definition Atoi :: "string \<Rightarrow> error + int" where
  "Atoi s0 =
    (case s0 of
       [] \<Rightarrow> Inl (NumError s0 ErrSyntax)
     | c # cs \<Rightarrow>
         let neg = (c = CHR ''-'');
             s = (if c = CHR ''-'' \<or> c = CHR ''+'' then cs else s0)
         in if s = [] then Inl (NumError s0 ErrSyntax)
            else
              (case parseDigits 0 s of
                 Inl kind \<Rightarrow> Inl (NumError s0 kind)
               | Inr un \<Rightarrow>
                   if neg then
                     (if 2 ^ 63 < un then Inl (NumError s0 ErrRange) else Inr (- int un))
                   else
                     (if 2 ^ 63 \<le> un then Inl (NumError s0 ErrRange) else Inr (int un))))"

subsection \<open>The integration and the node metadata\<close>

text \<open>
  The types \<^verbatim>\<open>Repository\<close>, \<^verbatim>\<open>Metadata\<close> and \<^verbatim>\<open>NodeMetadata\<close> of the package are
  declared outside the sources; the records hold the fields the component and its
  tests use (\<^verbatim>\<open>Repository{ID, Name, URL}\<close>, \<^verbatim>\<open>NodeMetadata{Repository: &repo}\<close>,
  \<^verbatim>\<open>appMetadata.GitHubApp.ID\<close>, \<^verbatim>\<open>.InstallationID\<close>, \<^verbatim>\<open>.Owner\<close>, \<^verbatim>\<open>.Repositories\<close>).
\<close>

record Repository =
  ID :: int
  Name :: string
  URL :: string

record GitHubAppMetadata =
  ID :: int

record Metadata =
  InstallationID :: string
  Owner :: string
  Repositories :: "Repository list"
  GitHubApp :: GitHubAppMetadata

record NodeMetadata =
  Repository :: "Repository option"

text \<open>
  \<^verbatim>\<open>ctx.Integration.GetMetadata()\<close> returns an \<^verbatim>\<open>any\<close>: nil, a \<^verbatim>\<open>Metadata\<close> value, or
  a value that does not decode into \<^verbatim>\<open>Metadata\<close>. Decoding nil leaves the zero value.
\<close>

datatype metadata_value = MetadataNil | MetadataOf Metadata | MetadataOther

record IntegrationContext =
  GetMetadata :: metadata_value

definition DecodeMetadata :: "metadata_value \<Rightarrow> error + Metadata" where
  "DecodeMetadata v =
    (case v of
       MetadataNil \<Rightarrow>
         Inr \<lparr>InstallationID = '''', Owner = '''', Repositories = [],
              GitHubApp = \<lparr>GitHubAppMetadata.ID = 0\<rparr>\<rparr>
     | MetadataOf m \<Rightarrow> Inr m
     | MetadataOther \<Rightarrow> Inl (DecodeError ['''']))"

text \<open>
  The node's metadata store holds one value, replaced as a whole by \<^verbatim>\<open>Set\<close>; \<open>None\<close>
  is the store nothing was written to (\<^verbatim>\<open>contexts.MetadataContext{}\<close>).
\<close>

type_synonym MetadataContext = "NodeMetadata option"

subsection \<open>Setup\<close>

text \<open>
  \<^verbatim>\<open>core.SetupContext\<close> and \<^verbatim>\<open>core.ExecutionContext\<close> are two structs with the fields
  \<^verbatim>\<open>Configuration\<close> and \<^verbatim>\<open>Integration\<close> in common; the records share them through a
  common parent, so that the field names are those of the source.
\<close>

record Context =
  Configuration :: raw_config
  Integration :: IntegrationContext

record SetupContext = Context +
  Metadata :: MetadataContext

text \<open>
  \<^verbatim>\<open>Setup\<close> mutates the metadata store through the helper it calls first and returns
  an error or nil: the model returns the error (\<open>None\<close> for nil) and the store
  afterwards. The helper \<^verbatim>\<open>ensureRepoInMetadata\<close> is a function of the package that is
  not among the sources, so \<open>Setup\<close> takes it as the parameter \<open>ensureRepo\<close>: what is
  proved of \<open>Setup ensureRepo\<close> for every \<open>ensureRepo\<close> is a fact of the code of
  \<^verbatim>\<open>Setup\<close> alone.
\<close>

type_synonym ensure_repo =
  "MetadataContext \<Rightarrow> IntegrationContext \<Rightarrow> raw_config \<Rightarrow> error option \<times> MetadataContext"

definition Setup :: "ensure_repo \<Rightarrow> SetupContext \<Rightarrow> error option \<times> MetadataContext" where
  "Setup ensureRepo ctx =
    (case ensureRepo (Metadata ctx) (Integration ctx) (Configuration ctx) of
       (Some err, metadata) \<Rightarrow> (Some err, metadata)
     | (None, metadata) \<Rightarrow>
         (case Decode (Configuration ctx) of
            Inl err \<Rightarrow> (Some (Errorf ''failed to decode configuration'' err), metadata)
          | Inr config \<Rightarrow>
              if IssueNumber config = '''' then (Some (ErrorsNew ''issue number is required''), metadata)
              else if Body config = '''' then (Some (ErrorsNew ''body is required''), metadata)
              else (None, metadata)))"

text \<open>
  Modelled from the spec: \<^verbatim>\<open>ensureRepoInMetadata\<close>, the helper of this package that
  \<^verbatim>\<open>Setup\<close> calls first and that is missing from the sources. From the specification
  (sections 4.2, 4.3, 6 and 9) and the tests of \<^verbatim>\<open>Setup\<close>: an absent or empty
  repository value fails with "repository is required", before the integration is
  looked at (the first test has no integration metadata at all); the known
  repositories are searched for one whose name equals the value, and "current lookup
  returns the first match"; no match fails with "repository <value> is not accessible
  to app installation"; on a match the store is overwritten with the whole resolved
  repository. A failure leaves the store as it was. Two things the specification does
  not say are chosen here: a repository value that is not a string counts as not
  provided, and integration metadata that does not decode is reported as
  \<^verbatim>\<open>Execute\<close> reports it.
\<close>

definition ensureRepoInMetadata :: ensure_repo where
  "ensureRepoInMetadata metadata integration configuration =
    (let repository = (case map_of configuration ''repository'' of
                         Some (AString s) \<Rightarrow> s
                       | _ \<Rightarrow> '''')
     in if repository = '''' then (Some (ErrorsNew ''repository is required''), metadata)
        else
          (case DecodeMetadata (GetMetadata integration) of
             Inl err \<Rightarrow> (Some (Errorf ''failed to decode application metadata'' err), metadata)
           | Inr appMetadata \<Rightarrow>
               (case find (\<lambda>r. Repository.Name r = repository) (Repositories appMetadata) of
                  None \<Rightarrow>
                    (Some (ErrorsNew (''repository '' @ repository @
                                        '' is not accessible to app installation'')),
                     metadata)
                | Some r \<Rightarrow> (None, Some \<lparr>Repository = Some r\<rparr>))))"

subsection \<open>Execute\<close>

text \<open>
  The collaborators of \<^verbatim>\<open>Execute\<close>. \<^verbatim>\<open>NewClient\<close> is a function of the package that is
  not among the sources: a parameter, returning an error or a client. Of the client
  the component uses \<^verbatim>\<open>Issues.CreateComment(ctx, owner, repo, number, comment)\<close>, the
  request to the GitHub API, which returns the created comment or an error.
  \<^verbatim>\<open>ctx.ExecutionState.Emit(channel, type, payloads)\<close> returns an error or nil.
\<close>

record IssueComment =
  CommentID :: int
  CommentBody :: string
  HTMLURL :: string

record Client =
  CreateComment :: "string \<Rightarrow> string \<Rightarrow> int \<Rightarrow> string \<Rightarrow> error + IssueComment"

record ExecutionStateContext =
  Emit :: "string \<Rightarrow> string \<Rightarrow> IssueComment list \<Rightarrow> error option"

record ExecutionContext = Context +
  ExecutionState :: ExecutionStateContext

text \<open>
  What \<^verbatim>\<open>Execute\<close> does to the world is the sequence of calls it makes to its
  collaborators, in order, with their arguments. \<open>Execute\<close> returns its error
  (\<open>None\<close> for nil) and that sequence.
\<close>

datatype call =
    NewClientCall int string
  | CreateCommentCall string string int string
  | EmitCall string string "IssueComment list"

type_synonym new_client = "IntegrationContext \<Rightarrow> int \<Rightarrow> string \<Rightarrow> error + Client"

definition Execute ::
  "OutputChannel \<Rightarrow> new_client \<Rightarrow> ExecutionContext \<Rightarrow> error option \<times> call list" where
  "Execute DefaultOutputChannel NewClient ctx =
    (case Decode (Configuration ctx) of
       Inl err \<Rightarrow> (Some (Errorf ''failed to decode configuration'' err), [])
     | Inr config \<Rightarrow>
    (case Atoi (IssueNumber config) of
       Inl err \<Rightarrow> (Some (Errorf ''issue number is not a valid number'' err), [])
     | Inr issueNumber \<Rightarrow>
    (case DecodeMetadata (GetMetadata (Integration ctx)) of
       Inl err \<Rightarrow> (Some (Errorf ''failed to decode application metadata'' err), [])
     | Inr appMetadata \<Rightarrow>
    (let newClient = NewClientCall (GitHubAppMetadata.ID (GitHubApp appMetadata))
                                   (InstallationID appMetadata)
     in case NewClient (Integration ctx) (GitHubAppMetadata.ID (GitHubApp appMetadata))
                       (InstallationID appMetadata) of
       Inl err \<Rightarrow> (Some (Errorf ''failed to initialize GitHub client'' err), [newClient])
     | Inr client \<Rightarrow>
    (let createComment = CreateCommentCall (Owner appMetadata)
                           (CreateIssueCommentConfiguration.Repository config)
                           issueNumber (Body config)
     in case CreateComment client (Owner appMetadata)
               (CreateIssueCommentConfiguration.Repository config) issueNumber (Body config) of
       Inl err \<Rightarrow>
         (Some (Errorf ''failed to create issue comment'' err), [newClient, createComment])
     | Inr comment \<Rightarrow>
         (Emit (ExecutionState ctx) (OutputChannel.Name DefaultOutputChannel)
            ''github.issueComment'' [comment],
          [newClient, createComment,
           EmitCall (OutputChannel.Name DefaultOutputChannel) ''github.issueComment''
             [comment]]))))))"

text \<open>The requests to the external service among the calls, and the emissions.\<close>

definition externalCalls :: "call list \<Rightarrow> call list" where
  "externalCalls calls = filter (\<lambda>c. case c of CreateCommentCall _ _ _ _ \<Rightarrow> True | _ \<Rightarrow> False) calls"

definition emitCalls :: "call list \<Rightarrow> call list" where
  "emitCalls calls = filter (\<lambda>c. case c of EmitCall _ _ _ \<Rightarrow> True | _ \<Rightarrow> False) calls"

subsection \<open>The words of the specification\<close>

text \<open>
  A "valid decimal integer string", as the specification's claim about \<^verbatim>\<open>Execute\<close>
  puts it: an optional sign followed by one or more decimal digits. This definition
  is written from those words, not from \<^verbatim>\<open>strconv.Atoi\<close>; the two are compared below.
\<close>

definition validDecimalInteger :: "string \<Rightarrow> bool" where
  "validDecimalInteger s =
    (case s of
       [] \<Rightarrow> False
     | c # cs \<Rightarrow>
         if c = CHR ''+'' \<or> c = CHR ''-'' then cs \<noteq> [] \<and> list_all isDigit cs
         else list_all isDigit (c # cs))"

subsection \<open>Concrete inputs\<close>

text \<open>
  The values of the package's tests of \<^verbatim>\<open>Setup\<close>: the repository "hello", an
  integration whose metadata holds only a list of repositories, and a configuration
  map with the three keys of the schema. A second repository, "world", serves an
  input the tests do not have.
\<close>

definition helloRepo :: Repository where
  "helloRepo =
    \<lparr>Repository.ID = 123456, Name = ''hello'', URL = ''https://github.com/testhq/hello''\<rparr>"

definition worldRepo :: Repository where
  "worldRepo =
    \<lparr>Repository.ID = 42, Name = ''world'', URL = ''https://github.com/testhq/world''\<rparr>"

definition testIntegration :: "Repository list \<Rightarrow> IntegrationContext" where
  "testIntegration repositories =
    \<lparr>GetMetadata = MetadataOf \<lparr>InstallationID = '''', Owner = '''', Repositories = repositories,
                                GitHubApp = \<lparr>GitHubAppMetadata.ID = 0\<rparr>\<rparr>\<rparr>"

definition testConfiguration :: "string \<Rightarrow> string \<Rightarrow> string \<Rightarrow> raw_config" where
  "testConfiguration repository issueNumber body =
    [(''repository'', AString repository), (''issueNumber'', AString issueNumber),
     (''body'', AString body)]"

text \<open>
  For \<^verbatim>\<open>Execute\<close>: an installation of the owner "testhq", a channel standing for
  \<^verbatim>\<open>core.DefaultOutputChannel\<close>, a client whose request returns a given response, and
  an execution state whose \<^verbatim>\<open>Emit\<close> returns nil.
\<close>

definition testhqIntegration :: IntegrationContext where
  "testhqIntegration =
    \<lparr>GetMetadata = MetadataOf \<lparr>InstallationID = ''12345'', Owner = ''testhq'',
                                Repositories = [helloRepo],
                                GitHubApp = \<lparr>GitHubAppMetadata.ID = 1\<rparr>\<rparr>\<rparr>"

definition testChannel :: OutputChannel where
  "testChannel = \<lparr>OutputChannel.Name = ''default'', Label = ''Default''\<rparr>"

definition createdComment :: IssueComment where
  "createdComment =
    \<lparr>CommentID = 1, CommentBody = ''Test comment'',
     HTMLURL = ''https://github.com/testhq/hello/issues/42#issuecomment-1''\<rparr>"

definition respondingClient :: "error + IssueComment \<Rightarrow> new_client" where
  "respondingClient response =
    (\<lambda>integration appID installationID.
       Inr \<lparr>CreateComment = (\<lambda>owner repo number body. response)\<rparr>)"

definition acceptingState :: ExecutionStateContext where
  "acceptingState = \<lparr>Emit = (\<lambda>channel eventType payloads. None)\<rparr>"

section \<open>Lemmas\<close>

subsection \<open>Lists\<close>

lemma find_app:
  "find P (xs @ ys) = (case find P xs of Some x \<Rightarrow> Some x | None \<Rightarrow> find P ys)"
  by (induction xs) auto

lemma update_absent: "k \<notin> fst ` set m \<Longrightarrow> AList.update k v m = m @ [(k, v)]"
  by (induction m) auto

subsection \<open>Atoi against the specification's words\<close>

lemma parseDigits_not_digits:
  "\<not> list_all isDigit s \<Longrightarrow> \<exists>kind. parseDigits n s = Inl kind"
  by (induction s arbitrary: n) auto

lemma parseDigits_Inr_digits: "parseDigits n s = Inr m \<Longrightarrow> list_all isDigit s"
  by (induction s arbitrary: n) (auto split: if_splits)

lemma isDigit_value: "isDigit c \<Longrightarrow> of_char c - 48 \<le> (9::nat)"
  by (auto simp: isDigit_def)

text \<open>Nineteen digits fit into 64 bits: reading them never ends with a range error.\<close>

lemma parseDigits_short:
  "n < 10 ^ k \<Longrightarrow> k + length s \<le> 19 \<Longrightarrow> parseDigits n s \<noteq> Inl ErrRange"
proof (induction s arbitrary: n k)
  case Nil
  then show ?case by simp
next
  case (Cons c cs)
  show ?case
  proof (cases "isDigit c")
    case False
    then show ?thesis by simp
  next
    case True
    have k: "k \<le> 18"
      using Cons.prems(2) by simp
    then have "(10::nat) ^ k \<le> 10 ^ 18"
      by (intro power_increasing) simp_all
    then have small: "n < 10 ^ 18"
      using Cons.prems(1) by linarith
    have d: "of_char c - 48 \<le> (9::nat)"
      using True by (rule isDigit_value)
    have next_lt: "n * 10 + (of_char c - 48) < 10 ^ Suc k"
      using Cons.prems(1) d by simp
    have "(10::nat) ^ Suc k \<le> 10 ^ 19"
      using k by (intro power_increasing) simp_all
    then have fits: "n * 10 + (of_char c - 48) < 2 ^ 64"
      using next_lt by simp
    have "parseDigits (n * 10 + (of_char c - 48)) cs \<noteq> Inl ErrRange"
      using next_lt Cons.prems(2) by (intro Cons.IH [of _ "Suc k"]) simp_all
    then show ?thesis
      using True small fits by simp
  qed
qed

text \<open>
  On a string that is not a valid decimal integer \<^verbatim>\<open>Atoi\<close> returns an error, and
  never a value. The error is a syntax error when the string has at most 19 bytes;
  on a longer one the digits before the offending byte may already have left 64 bits,
  and the error is then a range error.
\<close>

lemma Atoi_invalid:
  assumes "\<not> validDecimalInteger s"
  shows "\<exists>kind. Atoi s = Inl (NumError s kind)"
proof (cases s)
  case Nil
  then show ?thesis by (simp add: Atoi_def)
next
  case (Cons c cs)
  show ?thesis
  proof (cases "c = CHR ''-'' \<or> c = CHR ''+''")
    case True
    show ?thesis
    proof (cases "cs = []")
      case True
      then show ?thesis
        using Cons \<open>c = CHR ''-'' \<or> c = CHR ''+''\<close> by (auto simp: Atoi_def)
    next
      case False
      then have "\<not> list_all isDigit cs"
        using assms Cons True by (auto simp: validDecimalInteger_def)
      then obtain kind where "parseDigits 0 cs = Inl kind"
        using parseDigits_not_digits by blast
      then show ?thesis
        using Cons True False by (auto simp: Atoi_def)
    qed
  next
    case False
    then have "\<not> list_all isDigit (c # cs)"
      using assms Cons by (auto simp: validDecimalInteger_def)
    then obtain kind where "parseDigits 0 (c # cs) = Inl kind"
      using parseDigits_not_digits by blast
    then show ?thesis
      using Cons False by (auto simp: Atoi_def Let_def)
  qed
qed

lemma Atoi_Inr_valid: "Atoi s = Inr v \<Longrightarrow> validDecimalInteger s"
  using Atoi_invalid [of s] by auto

lemma Atoi_invalid_short:
  assumes "\<not> validDecimalInteger s" and "length s \<le> 19"
  shows "Atoi s = Inl (NumError s ErrSyntax)"
proof -
  obtain kind where kind: "Atoi s = Inl (NumError s kind)"
    using Atoi_invalid [OF assms(1)] by blast
  have "kind = ErrSyntax"
  proof (rule ccontr)
    assume "kind \<noteq> ErrSyntax"
    then have range: "Atoi s = Inl (NumError s ErrRange)"
      using kind by (cases kind) simp_all
    show False
    proof (cases s)
      case Nil
      then show False using range by (simp add: Atoi_def)
    next
      case (Cons c cs)
      define ds where "ds = (if c = CHR ''-'' \<or> c = CHR ''+'' then cs else s)"
      have "length ds \<le> 19"
        using assms(2) Cons by (simp add: ds_def)
      then have no: "parseDigits 0 ds \<noteq> Inl ErrRange"
        by (intro parseDigits_short [of 0 0]) simp_all
      have nonempty: "ds \<noteq> []"
        using range Cons by (auto simp: Atoi_def ds_def Let_def split: if_splits)
      obtain r where r: "parseDigits 0 ds = r" by simp
      show False
      proof (cases r)
        case (Inl k)
        then show False
          using range Cons no r nonempty
          by (auto simp: Atoi_def ds_def Let_def split: if_splits)
      next
        case (Inr un)
        then have "list_all isDigit ds"
          using r parseDigits_Inr_digits by blast
        then have "validDecimalInteger s"
          using Cons nonempty by (auto simp: validDecimalInteger_def ds_def split: if_splits)
        then show False using assms(1) by simp
      qed
    qed
  qed
  then show ?thesis using kind by simp
qed

lemma Atoi_42: "Atoi ''42'' = Inr 42"
  by (simp add: Atoi_def isDigit_def)

lemma Atoi_out_of_range:
  "Atoi ''9223372036854775808'' = Inl (NumError ''9223372036854775808'' ErrRange)"
  by (simp add: Atoi_def isDigit_def)

lemma Atoi_range_before_syntax:
  "Atoi ''99999999999999999999x'' = Inl (NumError ''99999999999999999999x'' ErrRange)"
  by (simp add: Atoi_def isDigit_def)

subsection \<open>Decoding\<close>

text \<open>
  Key matching at work: another case, the long s in place of an s, and a different
  name.
\<close>

lemma EqualFold_examples:
  "EqualFold ''ISSUENUMBER'' ''issueNumber'' \<and>
   EqualFold (''i'' @ [CHR 0xC5, CHR 0xBF] @ ''sueNumber'') ''issueNumber'' \<and>
   \<not> EqualFold ''body'' ''issueNumber''"
  by (simp add: EqualFold_def toLower_def)

lemma Decode_testConfiguration:
  "Decode (testConfiguration repository issueNumber body) =
     Inr \<lparr>CreateIssueCommentConfiguration.Repository = repository, IssueNumber = issueNumber,
          Body = body\<rparr>"
  by (simp add: Decode_def decodeString_def fieldValue_def testConfiguration_def)


text \<open>
  A field whose name no key of the map matches decodes to the empty string. Adding
  that name as a key with the empty string changes the decoding of no field.
\<close>

lemma decodeString_absent:
  assumes "\<forall>key \<in> fst ` set m. \<not> EqualFold key k"
    and "k \<notin> fst ` set m"
  shows "decodeString m k = Inr ''''"
proof -
  have "map_of m k = None"
    using assms(2) by (simp add: map_of_eq_None_iff)
  moreover have "find (\<lambda>kv. EqualFold (fst kv) k) m = None"
    using assms(1) by (auto simp: find_None_iff)
  ultimately show ?thesis
    by (simp add: decodeString_def fieldValue_def)
qed

lemma decodeString_update:
  assumes "\<forall>key \<in> fst ` set m. \<not> EqualFold key k"
    and absent: "k \<notin> fst ` set m"
  shows "decodeString (AList.update k (AString '''') m) name = decodeString m name"
proof (cases "name = k")
  case True
  have "map_of m k = None"
    using absent by (simp add: map_of_eq_None_iff)
  then have "decodeString (AList.update k (AString '''') m) k = Inr ''''"
    by (simp add: decodeString_def fieldValue_def update_absent [OF absent] map_add_def)
  then show ?thesis
    using True decodeString_absent [OF assms] by simp
next
  case False
  then show ?thesis
    by (auto simp: decodeString_def fieldValue_def update_absent [OF absent] find_app
        split: option.splits any.splits)
qed

lemma Decode_update:
  assumes "\<forall>key \<in> fst ` set m. \<not> EqualFold key k"
    and "k \<notin> fst ` set m"
  shows "Decode (AList.update k (AString '''') m) = Decode m"
  unfolding Decode_def decodeString_update [OF assms] by (rule refl)

subsection \<open>Setup and the modelled helper\<close>

lemma Setup_passes:
  assumes "ensureRepo (Metadata ctx) (Integration ctx) (Configuration ctx) = (None, metadata)"
    and "Decode (Configuration ctx) = Inr config"
    and "IssueNumber config \<noteq> ''''"
    and "Body config \<noteq> ''''"
  shows "Setup ensureRepo ctx = (None, metadata)"
  using assms by (simp add: Setup_def)

text \<open>
  The modelled helper reads the key \<^verbatim>\<open>repository\<close> only, and an absent key as an
  empty value: it answers the same when an absent key is added with the empty string.
\<close>

lemma ensureRepoInMetadata_absent_key:
  assumes "k \<notin> fst ` set m"
  shows "ensureRepoInMetadata metadata integration (AList.update k (AString '''') m) =
         ensureRepoInMetadata metadata integration m"
proof -
  have "map_of m k = None"
    using assms by (simp add: map_of_eq_None_iff)
  then show ?thesis
    by (auto simp: ensureRepoInMetadata_def update_conv' Let_def)
qed



text \<open>
  With the modelled helper, a key that is absent from the map and that no key of the
  map matches can be added with the empty string without changing what \<^verbatim>\<open>Setup\<close>
  returns: this covers the key \<^verbatim>\<open>repository\<close> as well.
\<close>

lemma Setup_absent_key_modelled:
  assumes "\<forall>key \<in> fst ` set (Configuration ctx). \<not> EqualFold key k"
    and "k \<notin> fst ` set (Configuration ctx)"
  shows "Setup ensureRepoInMetadata
           (ctx\<lparr>Configuration := AList.update k (AString '''') (Configuration ctx)\<rparr>) =
         Setup ensureRepoInMetadata ctx"
proof -
  have "ensureRepoInMetadata (Metadata ctx) (Integration ctx)
               (AList.update k (AString '''') (Configuration ctx)) =
             ensureRepoInMetadata (Metadata ctx) (Integration ctx) (Configuration ctx)"
    using assms(2) by (rule ensureRepoInMetadata_absent_key)
  then show ?thesis
    by (simp add: Setup_def Decode_update [OF assms] split: prod.splits option.splits)
qed

text \<open>
  With the modelled helper, what \<^verbatim>\<open>Setup\<close> returns does not depend on the store it
  starts from, except that a failure of the helper leaves that store in place: a second
  call, on the store the first one left, returns what the first returned.
\<close>

lemma Setup_twice:
  "Setup ensureRepoInMetadata (ctx\<lparr>Metadata := snd (Setup ensureRepoInMetadata ctx)\<rparr>) =
   Setup ensureRepoInMetadata ctx"
  by (auto simp: Setup_def ensureRepoInMetadata_def Let_def
      split: option.splits any.splits sum.splits)

subsection \<open>Execute\<close>

lemma Execute_valid:
  assumes "Decode (Configuration ctx) = Inr config"
    and "Atoi (IssueNumber config) = Inr issueNumber"
    and "DecodeMetadata (GetMetadata (Integration ctx)) = Inr appMetadata"
    and "NewClient (Integration ctx) (GitHubAppMetadata.ID (GitHubApp appMetadata))
           (InstallationID appMetadata) = Inr client"
  shows "Execute DefaultOutputChannel NewClient ctx =
     (let newClient = NewClientCall (GitHubAppMetadata.ID (GitHubApp appMetadata))
                        (InstallationID appMetadata);
          createComment = CreateCommentCall (Owner appMetadata)
                            (CreateIssueCommentConfiguration.Repository config)
                            issueNumber (Body config)
      in case CreateComment client (Owner appMetadata)
                (CreateIssueCommentConfiguration.Repository config) issueNumber (Body config) of
           Inl err \<Rightarrow>
             (Some (Errorf ''failed to create issue comment'' err), [newClient, createComment])
         | Inr comment \<Rightarrow>
             (Emit (ExecutionState ctx) (OutputChannel.Name DefaultOutputChannel)
                ''github.issueComment'' [comment],
              [newClient, createComment,
               EmitCall (OutputChannel.Name DefaultOutputChannel) ''github.issueComment''
                 [comment]]))"
  using assms by (simp add: Execute_def Let_def)

text \<open>Whatever \<^verbatim>\<open>Atoi\<close> rejects, \<^verbatim>\<open>Execute\<close> rejects before it calls anything.\<close>

lemma Execute_Atoi_error:
  assumes "Decode (Configuration ctx) = Inr config"
    and "Atoi (IssueNumber config) = Inl err"
  shows "Execute DefaultOutputChannel NewClient ctx =
           (Some (Errorf ''issue number is not a valid number'' err), [])"
  using assms by (simp add: Execute_def)

section \<open>Execute\<close>

text \<open>
  C1. For every execution context with valid metadata and configuration (the
  configuration decodes and its issue number parses, the integration metadata
  decodes, and the client is obtained from it), \<^verbatim>\<open>Execute\<close> makes exactly one request
  to the external service. When the request succeeds, it makes exactly one \<^verbatim>\<open>Emit\<close>
  call, on the default channel, with the event type "github.issueComment" and a payload
  of one element, the created comment, and returns what \<^verbatim>\<open>Emit\<close> returns. When the
  request fails, it returns an error and makes no \<^verbatim>\<open>Emit\<close> call.
\<close>

theorem Execute_one_request_then_emit:
  assumes "Decode (Configuration ctx) = Inr config"
    and "Atoi (IssueNumber config) = Inr issueNumber"
    and "DecodeMetadata (GetMetadata (Integration ctx)) = Inr appMetadata"
    and "NewClient (Integration ctx) (GitHubAppMetadata.ID (GitHubApp appMetadata))
           (InstallationID appMetadata) = Inr client"
  shows "let response = CreateComment client (Owner appMetadata)
                          (CreateIssueCommentConfiguration.Repository config)
                          issueNumber (Body config);
             result = Execute DefaultOutputChannel NewClient ctx
         in externalCalls (snd result) =
              [CreateCommentCall (Owner appMetadata)
                 (CreateIssueCommentConfiguration.Repository config) issueNumber (Body config)] \<and>
            (\<forall>comment. response = Inr comment \<longrightarrow>
               emitCalls (snd result) =
                 [EmitCall (OutputChannel.Name DefaultOutputChannel) ''github.issueComment''
                    [comment]] \<and>
               fst result =
                 Emit (ExecutionState ctx) (OutputChannel.Name DefaultOutputChannel)
                   ''github.issueComment'' [comment]) \<and>
            (\<forall>err. response = Inl err \<longrightarrow>
               fst result = Some (Errorf ''failed to create issue comment'' err) \<and>
               emitCalls (snd result) = [])"
proof (cases "CreateComment client (Owner appMetadata)
                (CreateIssueCommentConfiguration.Repository config) issueNumber (Body config)")
  case (Inl err)
  then show ?thesis
    by (simp add: Execute_valid [where NewClient = NewClient, OF assms]
        externalCalls_def emitCalls_def Let_def)
next
  case (Inr comment)
  then show ?thesis
    by (simp add: Execute_valid [where NewClient = NewClient, OF assms]
        externalCalls_def emitCalls_def Let_def)
qed

text \<open>
  The theorem at the configuration of the tests, once with a client whose request
  succeeds and once with one whose request fails.
\<close>

theorem Execute_one_request_then_emit_witness:
  "externalCalls (snd (Execute testChannel (respondingClient (Inr createdComment))
      \<lparr>Configuration = testConfiguration ''hello'' ''42'' ''Test comment'',
       Integration = testhqIntegration, ExecutionState = acceptingState\<rparr>)) =
     [CreateCommentCall ''testhq'' ''hello'' 42 ''Test comment''] \<and>
   emitCalls (snd (Execute testChannel (respondingClient (Inr createdComment))
      \<lparr>Configuration = testConfiguration ''hello'' ''42'' ''Test comment'',
       Integration = testhqIntegration, ExecutionState = acceptingState\<rparr>)) =
     [EmitCall ''default'' ''github.issueComment'' [createdComment]] \<and>
   fst (Execute testChannel (respondingClient (Inr createdComment))
      \<lparr>Configuration = testConfiguration ''hello'' ''42'' ''Test comment'',
       Integration = testhqIntegration, ExecutionState = acceptingState\<rparr>) = None \<and>
   externalCalls (snd (Execute testChannel (respondingClient (Inl (External ''404 Not Found'')))
      \<lparr>Configuration = testConfiguration ''hello'' ''42'' ''Test comment'',
       Integration = testhqIntegration, ExecutionState = acceptingState\<rparr>)) =
     [CreateCommentCall ''testhq'' ''hello'' 42 ''Test comment''] \<and>
   emitCalls (snd (Execute testChannel (respondingClient (Inl (External ''404 Not Found'')))
      \<lparr>Configuration = testConfiguration ''hello'' ''42'' ''Test comment'',
       Integration = testhqIntegration, ExecutionState = acceptingState\<rparr>)) = [] \<and>
   fst (Execute testChannel (respondingClient (Inl (External ''404 Not Found'')))
      \<lparr>Configuration = testConfiguration ''hello'' ''42'' ''Test comment'',
       Integration = testhqIntegration, ExecutionState = acceptingState\<rparr>) =
     Some (Errorf ''failed to create issue comment'' (External ''404 Not Found''))"
proof -
  define ctx :: ExecutionContext where
    "ctx = \<lparr>Configuration = testConfiguration ''hello'' ''42'' ''Test comment'',
            Integration = testhqIntegration, ExecutionState = acceptingState\<rparr>"
  define config :: CreateIssueCommentConfiguration where
    "config = \<lparr>CreateIssueCommentConfiguration.Repository = ''hello'', IssueNumber = ''42'',
               Body = ''Test comment''\<rparr>"
  define appMetadata :: Metadata where
    "appMetadata = \<lparr>InstallationID = ''12345'', Owner = ''testhq'', Repositories = [helloRepo],
                    GitHubApp = \<lparr>GitHubAppMetadata.ID = 1\<rparr>\<rparr>"
  have a: "Decode (Configuration ctx) = Inr config"
    by (simp add: ctx_def config_def Decode_testConfiguration)
  have b: "Atoi (IssueNumber config) = Inr 42"
    by (simp add: config_def Atoi_42)
  have c: "DecodeMetadata (GetMetadata (Integration ctx)) = Inr appMetadata"
    by (simp add: ctx_def appMetadata_def DecodeMetadata_def testhqIntegration_def)
  have d: "respondingClient response (Integration ctx)
             (GitHubAppMetadata.ID (GitHubApp appMetadata)) (InstallationID appMetadata) =
           Inr \<lparr>CreateComment = (\<lambda>owner repo number body. response)\<rparr>" for response
    by (simp add: respondingClient_def)
  note succeeds =
    Execute_one_request_then_emit [where NewClient = "respondingClient (Inr createdComment)"
      and DefaultOutputChannel = testChannel, OF a b c d]
  note fails =
    Execute_one_request_then_emit
      [where NewClient = "respondingClient (Inl (External ''404 Not Found''))"
      and DefaultOutputChannel = testChannel, OF a b c d]
  from succeeds fails show ?thesis
    by (simp add: Let_def ctx_def config_def appMetadata_def testChannel_def acceptingState_def)
qed

text \<open>
  C10. For every configuration whose issue number is non-empty but is not a valid
  decimal integer string, \<^verbatim>\<open>Execute\<close> returns an error whose message contains "issue
  number is not a valid number", having called no collaborator: no client, no request,
  no \<^verbatim>\<open>Emit\<close>. The error wraps the \<^verbatim>\<open>NumError\<close> of \<^verbatim>\<open>Atoi\<close> for that issue number, a
  syntax error whenever the issue number has at most 19 bytes. \<^verbatim>\<open>Setup\<close> accepts the
  same configuration whenever its repository check passes and the body is non-empty,
  since it tests the issue number for emptiness only.
\<close>

theorem Execute_issue_number_not_a_number:
  assumes "Decode (Configuration ctx) = Inr config"
    and "IssueNumber config \<noteq> ''''"
    and "\<not> validDecimalInteger (IssueNumber config)"
  shows "(\<exists>kind.
            Execute DefaultOutputChannel NewClient ctx =
              (Some (Errorf ''issue number is not a valid number''
                       (NumError (IssueNumber config) kind)), []) \<and>
            (length (IssueNumber config) \<le> 19 \<longrightarrow> kind = ErrSyntax) \<and>
            sublist ''issue number is not a valid number''
              (Error lib (Errorf ''issue number is not a valid number''
                            (NumError (IssueNumber config) kind)))) \<and>
         (\<forall>sctx ensureRepo metadata.
            Configuration sctx = Configuration ctx \<and>
            ensureRepo (Metadata sctx) (Integration sctx) (Configuration sctx) = (None, metadata) \<and>
            Body config \<noteq> '''' \<longrightarrow>
            Setup ensureRepo sctx = (None, metadata))"
proof -
  obtain kind where kind: "Atoi (IssueNumber config) = Inl (NumError (IssueNumber config) kind)"
    using Atoi_invalid [OF assms(3)] by blast
  have "Execute DefaultOutputChannel NewClient ctx =
           (Some (Errorf ''issue number is not a valid number''
                    (NumError (IssueNumber config) kind)), [])"
    using assms(1) kind by (rule Execute_Atoi_error)
  moreover have "kind = ErrSyntax" if "length (IssueNumber config) \<le> 19"
    using Atoi_invalid_short [OF assms(3) that] kind by simp
  moreover have "sublist ''issue number is not a valid number''
           (Error lib (Errorf ''issue number is not a valid number''
                         (NumError (IssueNumber config) kind)))"
    by simp
  moreover have "Setup ensureRepo sctx = (None, metadata)"
    if "Configuration sctx = Configuration ctx"
      and "ensureRepo (Metadata sctx) (Integration sctx) (Configuration sctx) = (None, metadata)"
      and "Body config \<noteq> ''''"
    for sctx :: SetupContext and ensureRepo metadata
    using that assms(1,2) by (simp add: Setup_passes)
  ultimately show ?thesis by blast
qed

text \<open>
  The theorem at the issue number "4a": \<^verbatim>\<open>Execute\<close> fails before it asks for a
  client (the one given here would fail), and \<^verbatim>\<open>Setup\<close>, with the modelled helper
  and the repository "hello" known, succeeds.
\<close>

theorem Execute_issue_number_not_a_number_witness:
  "\<not> validDecimalInteger ''4a'' \<and>
   Execute testChannel (\<lambda>integration appID installationID. Inl (External ''not reached''))
     \<lparr>Configuration = testConfiguration ''hello'' ''4a'' ''Test comment'',
      Integration = testhqIntegration, ExecutionState = acceptingState\<rparr> =
   (Some (Errorf ''issue number is not a valid number'' (NumError ''4a'' ErrSyntax)), []) \<and>
   Setup ensureRepoInMetadata
     \<lparr>Configuration = testConfiguration ''hello'' ''4a'' ''Test comment'',
      Integration = testIntegration [helloRepo], Metadata = None\<rparr> =
   (None, Some \<lparr>Repository = Some helloRepo\<rparr>)"
proof -
  define ctx :: ExecutionContext where
    "ctx = \<lparr>Configuration = testConfiguration ''hello'' ''4a'' ''Test comment'',
            Integration = testhqIntegration, ExecutionState = acceptingState\<rparr>"
  define sctx :: SetupContext where
    "sctx = \<lparr>Configuration = testConfiguration ''hello'' ''4a'' ''Test comment'',
             Integration = testIntegration [helloRepo], Metadata = None\<rparr>"
  define config :: CreateIssueCommentConfiguration where
    "config = \<lparr>CreateIssueCommentConfiguration.Repository = ''hello'', IssueNumber = ''4a'',
               Body = ''Test comment''\<rparr>"
  have a: "Decode (Configuration ctx) = Inr config"
    by (simp add: ctx_def config_def Decode_testConfiguration)
  have b: "IssueNumber config \<noteq> ''''"
    by (simp add: config_def)
  have c: "\<not> validDecimalInteger (IssueNumber config)"
    by (simp add: config_def validDecimalInteger_def isDigit_def)
  have d: "Configuration sctx = Configuration ctx"
    by (simp add: sctx_def ctx_def)
  have e: "ensureRepoInMetadata (Metadata sctx) (Integration sctx) (Configuration sctx) =
             (None, Some \<lparr>Repository = Some helloRepo\<rparr>)"
    by (simp add: sctx_def ensureRepoInMetadata_def DecodeMetadata_def Let_def
        testConfiguration_def testIntegration_def helloRepo_def)
  have f: "Body config \<noteq> ''''"
    by (simp add: config_def)
  have short: "length (IssueNumber config) \<le> 19"
    by (simp add: config_def)
  from Execute_issue_number_not_a_number [OF a b c,
      where DefaultOutputChannel = testChannel
        and NewClient = "\<lambda>integration appID installationID. Inl (External ''not reached'')"
        and lib = "\<lambda>err. ''''"]
  have "Execute testChannel (\<lambda>integration appID installationID. Inl (External ''not reached''))
          ctx =
        (Some (Errorf ''issue number is not a valid number'' (NumError ''4a'' ErrSyntax)), [])"
    and "Setup ensureRepoInMetadata sctx = (None, Some \<lparr>Repository = Some helloRepo\<rparr>)"
    using d e f short by (auto simp: config_def)
  with c show ?thesis
    by (simp add: ctx_def sctx_def config_def)
qed

section \<open>Setup\<close>




text \<open>
  C3. For every non-empty repository value of the configuration that is the name of
  none of the repositories the integration knows, \<^verbatim>\<open>Setup\<close> fails with the error
  "repository <value> is not accessible to app installation": its message contains the
  value and the phrase "not accessible to app installation". The store is left as it
  was.
\<close>

theorem Setup_repository_not_accessible:
  assumes "map_of (Configuration ctx) ''repository'' = Some (AString repository)"
    and "repository \<noteq> ''''"
    and "DecodeMetadata (GetMetadata (Integration ctx)) = Inr appMetadata"
    and "repository \<notin> Repository.Name ` set (Repositories appMetadata)"
  shows "Setup ensureRepoInMetadata ctx =
           (Some (ErrorsNew (''repository '' @ repository @
                               '' is not accessible to app installation'')),
            Metadata ctx) \<and>
         sublist repository
           (Error lib (ErrorsNew (''repository '' @ repository @
                                    '' is not accessible to app installation''))) \<and>
         sublist ''not accessible to app installation''
           (Error lib (ErrorsNew (''repository '' @ repository @
                                    '' is not accessible to app installation'')))"
proof -
  have "find (\<lambda>r. Repository.Name r = repository) (Repositories appMetadata) = None"
    using assms(4) by (auto simp: find_None_iff)
  then have "Setup ensureRepoInMetadata ctx =
           (Some (ErrorsNew (''repository '' @ repository @
                               '' is not accessible to app installation'')),
            Metadata ctx)"
    using assms(1,2,3) by (simp add: Setup_def ensureRepoInMetadata_def)
  moreover have "sublist repository (''repository '' @ repository @
                                    '' is not accessible to app installation'')"
    by (rule sublist_appendI)
  moreover have "sublist ''not accessible to app installation''
      ((''repository '' @ repository @ '' is '') @ ''not accessible to app installation'')"
    by (rule sublist_append_leftI)
  ultimately show ?thesis by simp
qed

text \<open>The theorem at the input of the test "repository is not accessible".\<close>

theorem Setup_repository_not_accessible_witness:
  "Setup ensureRepoInMetadata
     \<lparr>Configuration = testConfiguration ''world'' ''42'' ''Test comment'',
      Integration = testIntegration [helloRepo], Metadata = None\<rparr> =
   (Some (ErrorsNew ''repository world is not accessible to app installation''), None) \<and>
   sublist ''world''
     (Error (\<lambda>err. '''')
        (ErrorsNew ''repository world is not accessible to app installation'')) \<and>
   sublist ''not accessible to app installation''
     (Error (\<lambda>err. '''')
        (ErrorsNew ''repository world is not accessible to app installation''))"
proof -
  have a: "map_of (Configuration
          \<lparr>Configuration = testConfiguration ''world'' ''42'' ''Test comment'',
           Integration = testIntegration [helloRepo], Metadata = None\<rparr>) ''repository'' =
        Some (AString ''world'')"
    by (simp add: testConfiguration_def)
  have b: "''world'' \<noteq> ''''"
    by simp
  have c: "DecodeMetadata (GetMetadata (Integration
          \<lparr>Configuration = testConfiguration ''world'' ''42'' ''Test comment'',
           Integration = testIntegration [helloRepo], Metadata = None\<rparr>)) =
        Inr \<lparr>InstallationID = '''', Owner = '''', Repositories = [helloRepo],
             GitHubApp = \<lparr>GitHubAppMetadata.ID = 0\<rparr>\<rparr>"
    by (simp add: DecodeMetadata_def testIntegration_def)
  have d: "''world'' \<notin> Repository.Name ` set (Repositories
        \<lparr>InstallationID = '''', Owner = '''', Repositories = [helloRepo],
             GitHubApp = \<lparr>GitHubAppMetadata.ID = 0\<rparr>\<rparr>)"
    by (simp add: helloRepo_def)
  from Setup_repository_not_accessible [OF a b c d, where lib = "\<lambda>err. ''''"] show ?thesis
    by simp
qed

text \<open>
  C4. \<^verbatim>\<open>Setup\<close> is idempotent: when a call succeeds and leaves the store \<open>metadata\<close>, a
  second call with the same configuration and integration, on that store, succeeds as
  well and leaves the same store.
\<close>

theorem Setup_idempotent:
  assumes "Setup ensureRepoInMetadata ctx = (None, metadata)"
  shows "Setup ensureRepoInMetadata (ctx\<lparr>Metadata := metadata\<rparr>) = (None, metadata)"
  using Setup_twice [of ctx] assms by simp

text \<open>The theorem at the input of the test "metadata is set successfully".\<close>

theorem Setup_idempotent_witness:
  "Setup ensureRepoInMetadata
     \<lparr>Configuration = testConfiguration ''hello'' ''42'' ''Test comment'',
      Integration = testIntegration [helloRepo], Metadata = None\<rparr> =
   (None, Some \<lparr>Repository = Some helloRepo\<rparr>) \<and>
   Setup ensureRepoInMetadata
     \<lparr>Configuration = testConfiguration ''hello'' ''42'' ''Test comment'',
      Integration = testIntegration [helloRepo],
      Metadata = Some \<lparr>Repository = Some helloRepo\<rparr>\<rparr> =
   (None, Some \<lparr>Repository = Some helloRepo\<rparr>)"
proof -
  have once: "Setup ensureRepoInMetadata
     \<lparr>Configuration = testConfiguration ''hello'' ''42'' ''Test comment'',
      Integration = testIntegration [helloRepo], Metadata = None\<rparr> =
   (None, Some \<lparr>Repository = Some helloRepo\<rparr>)"
    by (simp add: Setup_def ensureRepoInMetadata_def Decode_def decodeString_def
      fieldValue_def DecodeMetadata_def Let_def testConfiguration_def testIntegration_def helloRepo_def)
  from Setup_idempotent [OF once] once show ?thesis
    by simp
qed

text \<open>
  C5. For every configuration whose repository value (non-empty) is the name of a
  repository the integration knows, and whose issue number and body are non-empty
  strings, \<^verbatim>\<open>Setup\<close> succeeds, and the store afterwards holds the resolved repository
  itself, with its numeric ID, its name and its URL: an element of the known list with
  that name (the one the lookup finds). The result does not mention the store the call
  started from: the value is replaced as a whole.
\<close>

theorem Setup_stores_resolved_repository:
  assumes "map_of (Configuration ctx) ''repository'' = Some (AString repository)"
    and "repository \<noteq> ''''"
    and "DecodeMetadata (GetMetadata (Integration ctx)) = Inr appMetadata"
    and "repository \<in> Repository.Name ` set (Repositories appMetadata)"
    and "map_of (Configuration ctx) ''issueNumber'' = Some (AString issueNumber)"
    and "issueNumber \<noteq> ''''"
    and "map_of (Configuration ctx) ''body'' = Some (AString body)"
    and "body \<noteq> ''''"
  shows "\<exists>repo. find (\<lambda>r. Repository.Name r = repository) (Repositories appMetadata) = Some repo \<and>
           repo \<in> set (Repositories appMetadata) \<and>
           Repository.Name repo = repository \<and>
           Setup ensureRepoInMetadata ctx = (None, Some \<lparr>Repository = Some repo\<rparr>)"
proof -
  obtain repo where found:
    "find (\<lambda>r. Repository.Name r = repository) (Repositories appMetadata) = Some repo"
    using assms(4) by (cases "find (\<lambda>r. Repository.Name r = repository) (Repositories appMetadata)")
      (auto simp: find_None_iff)
  then have "repo \<in> set (Repositories appMetadata)" and "Repository.Name repo = repository"
    by (auto simp: find_Some_iff)
  moreover have "Decode (Configuration ctx) =
      Inr \<lparr>CreateIssueCommentConfiguration.Repository = repository, IssueNumber = issueNumber,
           Body = body\<rparr>"
    using assms(1,5,7) by (simp add: Decode_def decodeString_def fieldValue_def)
  then have "Setup ensureRepoInMetadata ctx = (None, Some \<lparr>Repository = Some repo\<rparr>)"
    using assms(1,2,3,6,8) found by (simp add: Setup_def ensureRepoInMetadata_def)
  ultimately show ?thesis using found by blast
qed

text \<open>
  The theorem at the input of the test "metadata is set successfully", started from a
  store that already holds another repository: nothing of it is left.
\<close>

theorem Setup_stores_resolved_repository_witness:
  "Setup ensureRepoInMetadata
     \<lparr>Configuration = testConfiguration ''hello'' ''42'' ''Test comment'',
      Integration = testIntegration [helloRepo],
      Metadata = Some \<lparr>Repository = Some worldRepo\<rparr>\<rparr> =
   (None, Some \<lparr>Repository = Some helloRepo\<rparr>)"
proof -
  define ctx :: SetupContext where
    "ctx = \<lparr>Configuration = testConfiguration ''hello'' ''42'' ''Test comment'',
            Integration = testIntegration [helloRepo],
            Metadata = Some \<lparr>Repository = Some worldRepo\<rparr>\<rparr>"
  define appMetadata :: Metadata where
    "appMetadata = \<lparr>InstallationID = '''', Owner = '''', Repositories = [helloRepo],
                    GitHubApp = \<lparr>GitHubAppMetadata.ID = 0\<rparr>\<rparr>"
  have a: "map_of (Configuration ctx) ''repository'' = Some (AString ''hello'')"
    by (simp add: ctx_def testConfiguration_def)
  have b: "''hello'' \<noteq> ''''"
    by simp
  have c: "DecodeMetadata (GetMetadata (Integration ctx)) = Inr appMetadata"
    by (simp add: ctx_def appMetadata_def DecodeMetadata_def testIntegration_def)
  have d: "''hello'' \<in> Repository.Name ` set (Repositories appMetadata)"
    by (simp add: appMetadata_def helloRepo_def)
  have e: "map_of (Configuration ctx) ''issueNumber'' = Some (AString ''42'')"
    by (simp add: ctx_def testConfiguration_def)
  have f: "''42'' \<noteq> ''''"
    by simp
  have g: "map_of (Configuration ctx) ''body'' = Some (AString ''Test comment'')"
    by (simp add: ctx_def testConfiguration_def)
  have h: "''Test comment'' \<noteq> ''''"
    by simp
  from Setup_stores_resolved_repository [OF a b c d e f g h]
  obtain repo where "find (\<lambda>r. Repository.Name r = ''hello'') (Repositories appMetadata) = Some repo"
    and "Setup ensureRepoInMetadata ctx = (None, Some \<lparr>Repository = Some repo\<rparr>)"
    by blast
  then show ?thesis
    by (simp add: ctx_def appMetadata_def helloRepo_def)
qed




section \<open>The static descriptors\<close>

text \<open>
  C8. \<^verbatim>\<open>Configuration()\<close> returns exactly three fields, in the order repository,
  issueNumber, body, with the labels "Repository", "Issue Number", "Body", all three
  required. The value is a constant, so every call returns it.
\<close>

theorem Configuration_schema:
  "length Configuration_fields = 3 \<and>
   map Field.Name Configuration_fields = [''repository'', ''issueNumber'', ''body''] \<and>
   map Field.Label Configuration_fields = [''Repository'', ''Issue Number'', ''Body''] \<and>
   map Required Configuration_fields = [True, True, True]"
  by (simp add: Configuration_fields_def)

text \<open>
  C9. For every configuration value, \<^verbatim>\<open>OutputChannels\<close> returns a sequence of exactly
  one channel, the default output channel; two calls, with the same configuration or
  with different ones, return the same sequence.
\<close>

theorem OutputChannels_default:
  "OutputChannels DefaultOutputChannel configuration = [DefaultOutputChannel] \<and>
   length (OutputChannels DefaultOutputChannel configuration) = 1 \<and>
   OutputChannels DefaultOutputChannel configuration =
     OutputChannels DefaultOutputChannel configuration'"
  by (simp add: OutputChannels_def)

end

